theory Spec2Isabelle
  imports Complex_Main "HOL-Library.Sublist"
begin

section \<open>Python strings, errors and arrays\<close>

text \<open>
  \<^verbatim>\<open>s.replace(old, new)\<close>: every non-overlapping occurrence of \<open>old\<close>, found from the
  left, is replaced by \<open>new\<close>, and the scan resumes behind the occurrence. With an empty
  \<open>old\<close> Python puts \<open>new\<close> before every character and at the end.
\<close>

fun str_replace :: "string \<Rightarrow> string \<Rightarrow> string \<Rightarrow> string" where
  "str_replace old new [] = (if old = [] then new else [])"
| "str_replace old new (c # cs) =
     (if old = [] then new @ c # str_replace old new cs
      else if prefix old (c # cs)
        then new @ str_replace old new (drop (length old) (c # cs))
      else c # str_replace old new cs)"

text \<open>\<^verbatim>\<open>str.upper\<close>, on ASCII letters.\<close>

definition char_upper :: "char \<Rightarrow> char" where
  "char_upper c =
     (case map_of (zip ''abcdefghijklmnopqrstuvwxyz'' ''ABCDEFGHIJKLMNOPQRSTUVWXYZ'') c of
        None \<Rightarrow> c | Some u \<Rightarrow> u)"

definition str_upper :: "string \<Rightarrow> string" where
  "str_upper s = map char_upper s"

text \<open>
  The exceptions that can end a run. The last one stands for the input verification
  finding a problem with the configuration.
\<close>

datatype error =
    IndexError
  | KeyError string
  | ValueError string
  | AttributeError string
  | InputFormatError

text \<open>Indexing a sequence of length \<open>n\<close>: a negative index counts from the end.\<close>

definition py_index :: "nat \<Rightarrow> int \<Rightarrow> error + nat" where
  "py_index n i =
     (let j = (if i < 0 then int n + i else i)
      in if 0 \<le> j \<and> j < int n then Inr (nat j) else Inl IndexError)"

text \<open>
  An elementwise numpy operation on two one-dimensional operands: equal lengths go
  elementwise, an operand of length one is broadcast, anything else raises.
\<close>

definition np_broadcast :: "(real \<Rightarrow> real \<Rightarrow> real) \<Rightarrow> real list \<Rightarrow> real list \<Rightarrow> error + real list" where
  "np_broadcast f a b =
     (if length a = length b then Inr (map2 f a b)
      else if length b = 1 then Inr (map (\<lambda>x. f x (hd b)) a)
      else if length a = 1 then Inr (map (\<lambda>y. f (hd a) y) b)
      else Inl (ValueError ''operands could not be broadcast together''))"

section \<open>The catalog table\<close>

text \<open>
  Modelled from the spec: the table class behind an observation catalog
  (\<^verbatim>\<open>Observations\<close> and its \<^verbatim>\<open>data\<close> table, not part of the two source files). A
  table has named columns of equal length and a dictionary of aliases;
  \<^verbatim>\<open>resolve_alias\<close> maps a logical name to the physical column name and leaves any other
  name alone, \<^verbatim>\<open>set_alias\<close> records an alias (the latest wins). A column, a selection of
  rows and a single row can be taken out; a column name that the table does not have
  raises \<^verbatim>\<open>KeyError\<close>, a row index out of range raises \<^verbatim>\<open>IndexError\<close>.
\<close>

record table =
  colnames :: "string list"
  nrows :: nat
  cell :: "string \<Rightarrow> nat \<Rightarrow> real"
  aliases :: "(string \<times> string) list"

definition resolve_alias :: "table \<Rightarrow> string \<Rightarrow> string" where
  "resolve_alias t name = (case map_of (aliases t) name of None \<Rightarrow> name | Some c \<Rightarrow> c)"

definition set_alias :: "table \<Rightarrow> string \<Rightarrow> string \<Rightarrow> table" where
  "set_alias t alias colname = t\<lparr>aliases := (alias, colname) # aliases t\<rparr>"

definition column_values :: "table \<Rightarrow> string \<Rightarrow> real list" where
  "column_values t name = map (cell t name) [0..<nrows t]"

definition table_getcolumn :: "table \<Rightarrow> string \<Rightarrow> error + real list" where
  "table_getcolumn t name =
     (if name \<in> set (colnames t) then Inr (column_values t name)
      else Inl (KeyError name))"

definition table_getrows :: "table \<Rightarrow> nat list \<Rightarrow> table" where
  "table_getrows t keep = t\<lparr>nrows := length keep, cell := (\<lambda>name j. cell t name (keep ! j))\<rparr>"

definition table_getrow :: "table \<Rightarrow> int \<Rightarrow> error + nat" where
  "table_getrow t num = py_index (nrows t) num"

definition row_getitem :: "table \<Rightarrow> nat \<Rightarrow> string \<Rightarrow> error + real" where
  "row_getitem t i name =
     (if name \<in> set (colnames t) then Inr (cell t name i) else Inl (KeyError name))"

section \<open>What the program reads from outside\<close>

text \<open>
  The source files call into the library and read files. The results that the modelled
  code depends on are parameters of the model:
  \<^item> \<open>verify_ok\<close>: whether \<^verbatim>\<open>verify_params.verify_input_format(datamodel)\<close> accepts
    the configuration;
  \<^item> \<open>read_catalog\<close>: the table that \<^verbatim>\<open>Observations.__init__\<close> loads from a file;
  \<^item> \<open>Vega_getFlux\<close>: the Vega reference fluxes, the second component of
    \<^verbatim>\<open>Vega.getFlux(filters)\<close>;
  \<^item> \<open>percentile\<close>: \<^verbatim>\<open>numpy.percentile\<close>.
  Fluxes and magnitudes are real numbers in the model.
\<close>

record world =
  verify_ok :: bool
  read_catalog :: "string \<Rightarrow> table"
  Vega_getFlux :: "string list \<Rightarrow> real list"
  percentile :: "real list \<Rightarrow> real \<Rightarrow> real"

section \<open>\<^verbatim>\<open>datamodel.py\<close>: the catalog wrapper \<^verbatim>\<open>GenFluxCatalog\<close>\<close>

text \<open>
  The object state that the methods of lines 247-308 read and write. \<^verbatim>\<open>__init__\<close>
  (lines 247-258) loads the table, calls \<^verbatim>\<open>setFilters\<close>, sets the bad value and then
  aliases the \<open>ik\<close>-th filter to \<^verbatim>\<open>obs_colnames[ik]\<close>, which raises when there are
  more filters than column names. \<^verbatim>\<open>setFilters\<close> (lines 289-308) stores the filters and
  the Vega fluxes looked up for them.
\<close>

record GenFluxCatalog =
  data :: table
  desc :: string
  filters :: "string list"
  vega_flux :: "real list"
  badvalue :: "real option"

definition Observations_init :: "world \<Rightarrow> string \<Rightarrow> string \<Rightarrow> GenFluxCatalog" where
  "Observations_init w inputFile d =
     \<lparr>data = read_catalog w inputFile, desc = d, filters = [], vega_flux = [],
      badvalue = None\<rparr>"

definition setFilters :: "world \<Rightarrow> GenFluxCatalog \<Rightarrow> string list \<Rightarrow> GenFluxCatalog" where
  "setFilters w self fs = self\<lparr>filters := fs, vega_flux := Vega_getFlux w fs\<rparr>"

definition setBadValue :: "GenFluxCatalog \<Rightarrow> real \<Rightarrow> GenFluxCatalog" where
  "setBadValue self v = self\<lparr>badvalue := Some v\<rparr>"

fun set_aliases :: "string list \<Rightarrow> table \<Rightarrow> (nat \<times> string) list \<Rightarrow> error + table" where
  "set_aliases cols t [] = Inr t"
| "set_aliases cols t ((ik, k) # rest) =
     (if ik < length cols then set_aliases cols (set_alias t k (cols ! ik)) rest
      else Inl IndexError)"

definition GenFluxCatalog_init ::
  "world \<Rightarrow> string list \<Rightarrow> string \<Rightarrow> string list \<Rightarrow> error + GenFluxCatalog" where
  "GenFluxCatalog_init w obs_colnames inputFile fs =
     (let self = Observations_init w inputFile (''GENERIC star: '' @ inputFile);
          self = setFilters w self fs;
          self = setBadValue self (6 / 10 ^ 40)
      in case set_aliases obs_colnames (data self) (enumerate 0 fs) of
           Inl e \<Rightarrow> Inl e
         | Inr t \<Rightarrow> Inr (self\<lparr>data := t\<rparr>))"

text \<open>
  \<^verbatim>\<open>getFlux\<close> (lines 260-287). Its parameter is called \<^verbatim>\<open>units\<close>, the name under
  which the module imports \<^verbatim>\<open>astropy.units\<close>; inside the method the name is the
  parameter, a boolean, and an attribute lookup on a boolean named after a unit raises
  \<^verbatim>\<open>AttributeError\<close>. The lookups of line 285 are therefore made on \<open>PyBool units\<close>.
\<close>

datatype pyobj = PyBool bool | AstropyUnitsModule | AstropyUnit string

fun py_getattr :: "pyobj \<Rightarrow> string \<Rightarrow> error + pyobj" where
  "py_getattr AstropyUnitsModule name = Inr (AstropyUnit name)"
| "py_getattr (PyBool b) name =
     Inl (AttributeError (''bool object has no attribute '' @ name))"
| "py_getattr (AstropyUnit u) name =
     Inl (AttributeError (''unit object has no attribute '' @ name))"

datatype flux = Flux "real list" | FluxWithUnit "real list" string

fun row_values :: "table \<Rightarrow> nat \<Rightarrow> string list \<Rightarrow> error + real list" where
  "row_values t i [] = Inr []"
| "row_values t i (ok # oks) =
     (case row_getitem t i (resolve_alias t ok) of
        Inl e \<Rightarrow> Inl e
      | Inr v \<Rightarrow> (case row_values t i oks of Inl e \<Rightarrow> Inl e | Inr vs \<Rightarrow> Inr (v # vs)))"

definition getFlux :: "GenFluxCatalog \<Rightarrow> int \<Rightarrow> bool \<Rightarrow> error + flux" where
  "getFlux self num units =
     (case table_getrow (data self) num of
        Inl e \<Rightarrow> Inl e
      | Inr d \<Rightarrow>
         (case row_values (data self) d (filters self) of
            Inl e \<Rightarrow> Inl e
          | Inr vals \<Rightarrow>
             (case np_broadcast (*) vals (vega_flux self) of
                Inl e \<Rightarrow> Inl e
              | Inr fl \<Rightarrow>
                 if units = True then
                   (case py_getattr (PyBool units) ''erg'' of
                      Inl e \<Rightarrow> Inl e
                    | Inr erg \<Rightarrow>
                       (case py_getattr (PyBool units) ''s'' of
                          Inl e \<Rightarrow> Inl e
                        | Inr s \<Rightarrow>
                           (case py_getattr (PyBool units) ''cm'' of
                              Inl e \<Rightarrow> Inl e
                            | Inr cm \<Rightarrow>
                               (case py_getattr (PyBool units) ''angstrom'' of
                                  Inl e \<Rightarrow> Inl e
                                | Inr angstrom \<Rightarrow>
                                   Inr (FluxWithUnit fl ''erg / (Angstrom cm2 s)'')))))
                 else Inr (Flux fl))))"

section \<open>\<^verbatim>\<open>run_beast.py\<close>: artifact file names\<close>

text \<open>
  Lines 126-127, 168-169 and 187-188 build the SED grid file name, lines 195-196 (trim
  stage) the names of the two trimmed files, lines 205-207 (fit stage) the names of the
  trimmed grid and of the noise model that it reads, lines 218-221 the three output files.
\<close>

definition modelsedgridfile :: "string \<Rightarrow> string" where
  "modelsedgridfile project = project @ ''/'' @ project @ ''_seds.grid.hd5''"

definition sed_trimname :: "string \<Rightarrow> string" where
  "sed_trimname project = str_replace ''_seds'' ''_seds_trim'' (modelsedgridfile project)"

definition noisemodel_trimname :: "string \<Rightarrow> string" where
  "noisemodel_trimname project = str_replace ''_seds'' ''_noisemodel'' (sed_trimname project)"

definition fit_modelsedgrid :: "string \<Rightarrow> string" where
  "fit_modelsedgrid project = project @ ''/'' @ project @ ''_seds_trim.grid.hd5''"

definition noisemodelfile :: "string \<Rightarrow> string" where
  "noisemodelfile project = str_replace ''_seds'' ''_noisemodel'' (fit_modelsedgrid project)"

definition statsfile :: "string \<Rightarrow> string" where
  "statsfile project = project @ ''/'' @ project @ ''_stats.fits''"

definition pdf1dfile :: "string \<Rightarrow> string" where
  "pdf1dfile project = str_replace ''stats.fits'' ''pdf1d.fits'' (statsfile project)"

definition lnpfile :: "string \<Rightarrow> string" where
  "lnpfile project = str_replace ''stats.fits'' ''lnp.hd5'' (statsfile project)"

section \<open>\<^verbatim>\<open>run_beast.py\<close>: the distances of the physicsmodel stage\<close>

text \<open>
  A distance is a value with a unit. Of astropy's units the model keeps the magnitude, the
  parsec, two more units of length and one unit that is no length. Lines 77-84: the unit
  of the first distance decides; magnitudes are converted, parsecs are handed on, every
  other unit raises. An empty list fails at \<^verbatim>\<open>datamodel.distances[0]\<close>.
\<close>

datatype astropy_unit = Mag | Pc | Kpc | Meter | Second

record quantity =
  q_value :: real
  q_unit :: astropy_unit

fun is_length :: "astropy_unit \<Rightarrow> bool" where
  "is_length Pc = True"
| "is_length Kpc = True"
| "is_length Meter = True"
| "is_length Mag = False"
| "is_length Second = False"

definition convert_distances :: "quantity list \<Rightarrow> error + quantity list" where
  "convert_distances ds =
     (case ds of
        [] \<Rightarrow> Inl IndexError
      | d0 # _ \<Rightarrow>
          if q_unit d0 = Mag
            then Inr (map (\<lambda>d. \<lparr>q_value = 10 powr (q_value d / 5 + 1), q_unit = Pc\<rparr>) ds)
          else if q_unit d0 = Pc then Inr ds
          else Inl (ValueError ''distance modulus does not have mag or parsec units''))"

section \<open>The configuration module\<close>

text \<open>
  The module-level values of \<^verbatim>\<open>datamodel.py\<close> that \<^verbatim>\<open>run_beast.py\<close> reads. Library
  objects (isochrone and stellar libraries, extinction law, prior models, calibration
  matrix) are represented by a name; \<^verbatim>\<open>logt\<close> is the triple of lines 71-73;
  \<^verbatim>\<open>add_spectral_properties_kwargs\<close> is optional (line 86 tests for it).
  \<^verbatim>\<open>obs_colnames\<close> is line 52, \<^verbatim>\<open>get_obscat\<close> lines 311-329.
\<close>

record datamodel =
  project :: string
  filters :: "string list"
  basefilters :: "string list"
  obsfile :: string
  ast_models_selected_per_age :: nat
  ast_bands_above_maglimit :: nat
  ast_realization_per_model :: nat
  ast_maglimit :: "real list"
  ast_with_positions :: bool
  ast_pixel_distribution :: real
  ast_reference_image :: "string option"
  astfile :: string
  noisefile :: string
  absflux_a_matrix :: string
  distances :: "quantity list"
  logt :: "real \<times> real \<times> real"
  z :: "real list"
  oiso :: string
  osl :: string
  extLaw :: string
  avs :: "real list"
  av_prior_model :: string
  rvs :: "real list"
  rv_prior_model :: string
  fAs :: "real list"
  fA_prior_model :: string
  add_spectral_properties_kwargs :: "string list option"

definition obs_colnames :: "datamodel \<Rightarrow> string list" where
  "obs_colnames dm = map (\<lambda>f. str_upper f @ ''_RATE'') (basefilters dm)"

definition get_obscat :: "world \<Rightarrow> datamodel \<Rightarrow> string \<Rightarrow> string list \<Rightarrow> error + GenFluxCatalog" where
  "get_obscat w dm obsf fs = GenFluxCatalog_init w (obs_colnames dm) obsf fs"

section \<open>\<^verbatim>\<open>run_beast.py\<close>: the driver\<close>

text \<open>
  What a run does is the sequence of its calls to the library, each with the arguments
  that are plain data; grid and catalog objects handed from one call to the next are
  named by the file or call they come from. A run is the list of calls made and the
  exception that ended it, if any; \<open>then_run\<close> is sequential composition.
\<close>

datatype call =
    VerifyInputFormat
  | CreateProjectDir string
  | MakeIsoTable string string real real real "real list"
  | MakeSpectralGrid string string "quantity list" "string list option"
  | AddStellarPriors string
  | MakeGridWithDistances string "quantity list"
  | MakeExtinguishedSedGrid string "string list" string "real list" "real list" "real list"
      string string string "string list option"
  | FileSEDGrid string
  | ObservationsInit string
  | VegaGetFlux "string list"
  | PickModels string "real list" nat nat nat
  | PickPositions string real "string option"
  | Print string
  | MakeToothpickNoiseModel string string string string
  | GetNoisemodelcat string
  | TrimModels string string string string string real
  | TimeClock
  | SummaryTableMemory string string string bool real nat nat string string string
  | PrintTimeToFit
  | PrintHelp

type_synonym run = "call list \<times> error option"

definition then_run :: "run \<Rightarrow> run \<Rightarrow> run" where
  "then_run r1 r2 = (case snd r1 of Some e \<Rightarrow> r1 | None \<Rightarrow> (fst r1 @ fst r2, snd r2))"

definition get_obscat_run :: "world \<Rightarrow> datamodel \<Rightarrow> run" where
  "get_obscat_run w dm =
     ([ObservationsInit (obsfile dm), VegaGetFlux (datamodel.filters dm)],
      case get_obscat w dm (obsfile dm) (datamodel.filters dm) of
        Inl e \<Rightarrow> Some e | Inr obsdata \<Rightarrow> None)"

text \<open>The physicsmodel stage, lines 63-122.\<close>

definition iso_calls :: "datamodel \<Rightarrow> call list" where
  "iso_calls dm =
     [CreateProjectDir (project dm),
      MakeIsoTable (project dm) (oiso dm) (fst (logt dm)) (fst (snd (logt dm)))
        (snd (snd (logt dm))) (z dm)]"

definition grid_calls :: "datamodel \<Rightarrow> quantity list \<Rightarrow> call list" where
  "grid_calls dm ds =
     (let extra_kwargs = add_spectral_properties_kwargs dm
      in [MakeSpectralGrid (project dm) (osl dm) ds extra_kwargs,
          AddStellarPriors (project dm),
          MakeGridWithDistances (project dm) ds,
          MakeExtinguishedSedGrid (project dm) (datamodel.filters dm) (extLaw dm)
            (avs dm) (rvs dm) (fAs dm) (rv_prior_model dm) (av_prior_model dm)
            (fA_prior_model dm) extra_kwargs])"

definition physicsmodel_stage :: "datamodel \<Rightarrow> run" where
  "physicsmodel_stage dm =
     (case convert_distances (distances dm) of
        Inl e \<Rightarrow> (iso_calls dm, Some e)
      | Inr ds \<Rightarrow> (iso_calls dm @ grid_calls dm ds, None))"

text \<open>
  The ast stage, lines 124-162. With a single configured magnitude cut, lines 135-149
  compute one cut per filter from the catalog: the column is the filter's alias with
  \<^verbatim>\<open>rate\<close> replaced by \<^verbatim>\<open>vega\<close> (in either case), the rows below 99 are kept, and the
  90th percentile of the kept values goes into \<^verbatim>\<open>min_mags[k]\<close>.
\<close>

definition np_where_lt :: "real list \<Rightarrow> real \<Rightarrow> nat list" where
  "np_where_lt xs c = filter (\<lambda>i. xs ! i < c) [0..<length xs]"

definition vega_colname :: "GenFluxCatalog \<Rightarrow> string \<Rightarrow> string" where
  "vega_colname obsdata filtername =
     str_replace ''RATE'' ''VEGA''
       (str_replace ''rate'' ''vega'' (resolve_alias (data obsdata) filtername))"

fun min_mags_loop ::
  "world \<Rightarrow> GenFluxCatalog \<Rightarrow> (nat \<times> string) list \<Rightarrow> real list \<Rightarrow> error + real list" where
  "min_mags_loop w obsdata [] min_mags = Inr min_mags"
| "min_mags_loop w obsdata ((k, filtername) # rest) min_mags =
     (let sfiltername = vega_colname obsdata filtername
      in case table_getcolumn (data obsdata) sfiltername of
           Inl e \<Rightarrow> Inl e
         | Inr col \<Rightarrow>
            (let keep = np_where_lt col 99
             in case table_getcolumn (table_getrows (data obsdata) keep) sfiltername of
                  Inl e \<Rightarrow> Inl e
                | Inr kept \<Rightarrow>
                   if k < length min_mags
                     then min_mags_loop w obsdata rest (min_mags[k := percentile w kept 90])
                   else Inl IndexError))"

definition ast_mag_cuts :: "world \<Rightarrow> datamodel \<Rightarrow> call list \<times> (error + real list)" where
  "ast_mag_cuts w dm =
     (let mag_cuts = ast_maglimit dm
      in if length mag_cuts = 1 then
           (let tmp_cuts = mag_cuts;
                calls = [ObservationsInit (obsfile dm), VegaGetFlux (datamodel.filters dm)]
            in case get_obscat w dm (obsfile dm) (datamodel.filters dm) of
                 Inl e \<Rightarrow> (calls, Inl e)
               | Inr obsdata \<Rightarrow>
                  (case min_mags_loop w obsdata (enumerate 0 (GenFluxCatalog.filters obsdata))
                          (replicate (length (datamodel.filters dm)) 0) of
                     Inl e \<Rightarrow> (calls, Inl e)
                   | Inr min_mags \<Rightarrow> (calls, np_broadcast (+) min_mags tmp_cuts)))
         else ([], Inr mag_cuts))"

definition ast_stage :: "world \<Rightarrow> datamodel \<Rightarrow> run" where
  "ast_stage w dm =
     (let modelsedgrid = modelsedgridfile (project dm);
          N_models = ast_models_selected_per_age dm;
          Nfilters = ast_bands_above_maglimit dm;
          Nrealize = ast_realization_per_model dm
      in case ast_mag_cuts w dm of
           (calls, Inl e) \<Rightarrow> (FileSEDGrid modelsedgrid # calls, Some e)
         | (calls, Inr mag_cuts) \<Rightarrow>
            (FileSEDGrid modelsedgrid # calls @
             [PickModels modelsedgrid mag_cuts Nfilters N_models Nrealize] @
             (if ast_with_positions dm = True
                then [PickPositions (project dm @ ''/'' @ project dm @ ''_inputAST.txt'')
                        (ast_pixel_distribution dm) (ast_reference_image dm)]
              else []),
             None))"

text \<open>The observationmodel stage (lines 164-177), the trim stage (lines 179-199) and the
  fit stage (lines 201-232).\<close>

definition observationmodel_stage :: "datamodel \<Rightarrow> run" where
  "observationmodel_stage dm =
     ([Print ''Generating noise model from ASTs and absflux A matrix'',
       FileSEDGrid (modelsedgridfile (project dm)),
       MakeToothpickNoiseModel (noisefile dm) (astfile dm) (modelsedgridfile (project dm))
         (absflux_a_matrix dm)],
      None)"

definition trim_stage :: "world \<Rightarrow> datamodel \<Rightarrow> run" where
  "trim_stage w dm =
     then_run ([Print ''Trimming the model and noise grids''], None)
    (then_run (get_obscat_run w dm)
       ([FileSEDGrid (modelsedgridfile (project dm)),
         GetNoisemodelcat (noisefile dm),
         TrimModels (modelsedgridfile (project dm)) (noisefile dm) (obsfile dm)
           (sed_trimname (project dm)) (noisemodel_trimname (project dm)) 3],
        None))"

definition fit_stage :: "world \<Rightarrow> datamodel \<Rightarrow> bool \<Rightarrow> run" where
  "fit_stage w dm resume_arg =
     then_run ([TimeClock, GetNoisemodelcat (noisemodelfile (project dm))], None)
    (then_run (get_obscat_run w dm)
       ([Print (project dm),
         SummaryTableMemory (obsfile dm) (noisemodelfile (project dm))
           (fit_modelsedgrid (project dm)) resume_arg (- 10) 100 60
           (statsfile (project dm)) (pdf1dfile (project dm)) (lnpfile (project dm)),
         TimeClock,
         PrintTimeToFit],
        None))"

text \<open>
  The command line, lines 42-58: six \<^verbatim>\<open>store_true\<close> options, so each argument is set
  exactly when its flag occurs, wherever and however often. Help requests and unknown
  options end the program inside the parser and are not part of the model.
\<close>

datatype flag = FlagP | FlagA | FlagO | FlagT | FlagF | FlagR

record args =
  physicsmodel :: bool
  ast :: bool
  observationmodel :: bool
  trim :: bool
  fit :: bool
  resume :: bool

definition parse_args :: "flag list \<Rightarrow> args" where
  "parse_args argv =
     \<lparr>physicsmodel = (FlagP \<in> set argv), ast = (FlagA \<in> set argv),
      observationmodel = (FlagO \<in> set argv), trim = (FlagT \<in> set argv),
      fit = (FlagF \<in> set argv), resume = (FlagR \<in> set argv)\<rparr>"

text \<open>
  Modelled from the spec: \<^verbatim>\<open>verify_params.verify_input_format\<close> (line 61, not part of the
  two source files) checks the configuration before any stage; when it finds a problem it
  reports it and stops the run.
\<close>

definition verify_input_format :: "world \<Rightarrow> run" where
  "verify_input_format w =
     ([VerifyInputFormat], if verify_ok w then None else Some InputFormatError)"

text \<open>
  Lines 63-236: the stages in their fixed order, each under its flag, and at the end the
  help when no argument is set.
\<close>

definition run_if :: "bool \<Rightarrow> run \<Rightarrow> run" where
  "run_if b r = (if b then r else ([], None))"

definition run_beast :: "world \<Rightarrow> datamodel \<Rightarrow> args \<Rightarrow> run" where
  "run_beast w dm a =
     then_run (verify_input_format w)
    (then_run (run_if (physicsmodel a) (physicsmodel_stage dm))
    (then_run (run_if (ast a) (ast_stage w dm))
    (then_run (run_if (observationmodel a) (observationmodel_stage dm))
    (then_run (run_if (trim a) (trim_stage w dm))
    (then_run (run_if (fit a) (fit_stage w dm (resume a)))
       (run_if (\<not> (physicsmodel a \<or> ast a \<or> observationmodel a \<or> trim a \<or> fit a \<or> resume a))
          ([PrintHelp], None)))))))"

definition main :: "world \<Rightarrow> datamodel \<Rightarrow> flag list \<Rightarrow> run" where
  "main w dm argv = run_beast w dm (parse_args argv)"

section \<open>Notions used in the statements\<close>

text \<open>
  A stage has executed when the library routine that it delegates to was called;
  \<open>selected\<close> reads the flags. \<open>builds_grid\<close> marks the calls that build a model
  grid, and, modelled from the spec, \<open>writes_files\<close> the calls that leave a file behind.
  \<open>with_resume\<close> sets the resume argument of the posterior-summary call,
  \<open>without_help\<close> drops the help fallback, and two runs are the same up to resume when
  they then agree call by call and end alike. \<open>is_length\<close> above tells the units of length.
\<close>

datatype stage = Physicsmodel | Ast | Observationmodel | Trim | Fit

fun stage_of :: "call \<Rightarrow> stage option" where
  "stage_of (MakeExtinguishedSedGrid p fs e a r f rp ap fp k) = Some Physicsmodel"
| "stage_of (PickModels g m nf nm nr) = Some Ast"
| "stage_of (MakeToothpickNoiseModel n a g m) = Some Observationmodel"
| "stage_of (TrimModels g n ob s t f) = Some Trim"
| "stage_of (SummaryTableMemory ob n g r t s l st p lf) = Some Fit"
| "stage_of _ = None"

definition stages_executed :: "call list \<Rightarrow> stage list" where
  "stages_executed calls = List.map_filter stage_of calls"



fun builds_grid :: "call \<Rightarrow> bool" where
  "builds_grid (MakeSpectralGrid p sl ds k) = True"
| "builds_grid (AddStellarPriors p) = True"
| "builds_grid (MakeGridWithDistances p ds) = True"
| "builds_grid (MakeExtinguishedSedGrid p fs e a r f rp ap fp k) = True"
| "builds_grid _ = False"

fun writes_files :: "call \<Rightarrow> bool" where
  "writes_files (CreateProjectDir p) = True"
| "writes_files (MakeIsoTable p i t0 t1 dt zs) = True"
| "writes_files (PickModels g m nf nm nr) = True"
| "writes_files (PickPositions f sep im) = True"
| "writes_files (MakeToothpickNoiseModel n a g m) = True"
| "writes_files (TrimModels g n ob s t f) = True"
| "writes_files (SummaryTableMemory ob n g r t s l st p lf) = True"
| "writes_files c = builds_grid c"




section \<open>A concrete project\<close>

text \<open>
  A small catalog of three stars in two filters, a world around it, and a configuration
  in the style of the example projects; variants of the configuration with distances in
  other units, and a world whose configuration the verification rejects.
\<close>

definition ex_table :: table where
  "ex_table =
     \<lparr>colnames = [''F475W_RATE'', ''F814W_RATE'', ''F475W_VEGA'', ''F814W_VEGA''],
      nrows = 3,
      cell = (\<lambda>name i.
        if name = ''F475W_RATE'' then [2, 4, 6] ! i
        else if name = ''F814W_RATE'' then [1, 3, 5] ! i
        else if name = ''F475W_VEGA'' then [20, 99, 22] ! i
        else if name = ''F814W_VEGA'' then [19, 21, 99999 / 1000] ! i
        else 0),
      aliases = []\<rparr>"

definition ex_world :: world where
  "ex_world =
     \<lparr>verify_ok = True,
      read_catalog = (\<lambda>f. ex_table),
      Vega_getFlux = (\<lambda>fs. map (\<lambda>f. if f = ''HST_ACS_WFC_F475W'' then 10 else 7) fs),
      percentile = (\<lambda>xs q. if xs = [] then 0 else Max (set xs))\<rparr>"

definition ex_filters :: "string list" where
  "ex_filters = [''HST_ACS_WFC_F475W'', ''HST_ACS_WFC_F814W'']"

definition ex_obs_colnames :: "string list" where
  "ex_obs_colnames = [''F475W_RATE'', ''F814W_RATE'']"


definition ex_datamodel :: datamodel where
  "ex_datamodel =
     \<lparr>project = ''b15'',
      filters = ex_filters,
      basefilters = [''f475w'', ''f814w''],
      obsfile = ''data/b15.gst.fits'',
      ast_models_selected_per_age = 70,
      ast_bands_above_maglimit = 3,
      ast_realization_per_model = 1,
      ast_maglimit = [1],
      ast_with_positions = True,
      ast_pixel_distribution = 10,
      ast_reference_image = None,
      astfile = ''data/b15.gst.fake.fits'',
      noisefile = ''b15/b15_noisemodel.hd5'',
      absflux_a_matrix = ''hst_frac_matrix'',
      distances = [\<lparr>q_value = 5, q_unit = Mag\<rparr>],
      logt = (6, 1013 / 100, 1),
      z = [3 / 100, 19 / 1000],
      oiso = ''PadovaWeb'',
      osl = ''Kurucz'',
      extLaw = ''Gordon16_RvFALaw'',
      avs = [0, 10055 / 1000, 1],
      av_prior_model = ''flat'',
      rvs = [2, 6, 1],
      rv_prior_model = ''flat'',
      fAs = [0, 1, 1 / 4],
      fA_prior_model = ''flat'',
      add_spectral_properties_kwargs = Some ex_filters\<rparr>"

definition ex_datamodel_pc :: datamodel where
  "ex_datamodel_pc = ex_datamodel\<lparr>distances := [\<lparr>q_value = 780000, q_unit = Pc\<rparr>]\<rparr>"

definition ex_datamodel_kpc :: datamodel where
  "ex_datamodel_kpc = ex_datamodel\<lparr>distances := [\<lparr>q_value = 780, q_unit = Kpc\<rparr>]\<rparr>"

definition ex_datamodel_sec :: datamodel where
  "ex_datamodel_sec = ex_datamodel\<lparr>distances := [\<lparr>q_value = 1, q_unit = Second\<rparr>]\<rparr>"

definition ex_world_bad :: world where
  "ex_world_bad = ex_world\<lparr>verify_ok := False\<rparr>"

definition ex_catalog :: GenFluxCatalog where
  "ex_catalog =
     \<lparr>data = ex_table\<lparr>aliases := [(''HST_ACS_WFC_F814W'', ''F814W_RATE''),
                                  (''HST_ACS_WFC_F475W'', ''F475W_RATE'')]\<rparr>,
      desc = ''GENERIC star: data/b15.gst.fits'',
      filters = ex_filters,
      vega_flux = [10, 7],
      badvalue = Some (6 / 10 ^ 40)\<rparr>"

section \<open>Replacing \<^verbatim>\<open>_seds\<close> in file names\<close>


lemma str_replace_no_prefix:
  "old \<noteq> [] \<Longrightarrow> \<not> prefix old (c # cs) \<Longrightarrow>
   str_replace old new (c # cs) = c # str_replace old new cs"
  by simp

lemma str_replace_prefix:
  "old \<noteq> [] \<Longrightarrow> str_replace old new (old @ s) = new @ str_replace old new s"
  by (cases old) simp_all

lemma take_str_replace:
  "old \<noteq> [] \<Longrightarrow> prefix old new \<Longrightarrow>
   take (length old) (str_replace old new s) = take (length old) s"
proof (induction s)
  case Nil
  then show ?case by simp
next
  case (Cons c cs)
  show ?case
  proof (cases "prefix old (c # cs)")
    case True
    then obtain r where r: "c # cs = old @ r" by (auto simp: prefix_def)
    from Cons.prems(2) obtain n where n: "new = old @ n" by (auto simp: prefix_def)
    have "str_replace old new (c # cs) = new @ str_replace old new r"
      unfolding r by (rule str_replace_prefix[OF Cons.prems(1)])
    then show ?thesis unfolding r n by simp
  next
    case False
    from Cons.prems(1) obtain k where k: "length old = Suc k" by (cases old) auto
    have "take k (str_replace old new cs) = take k (take (length old) (str_replace old new cs))"
      by (simp add: k min_def)
    also have "\<dots> = take k (take (length old) cs)"
      using Cons.IH[OF Cons.prems] by simp
    also have "\<dots> = take k cs" by (simp add: k min_def)
    finally show ?thesis
      using False Cons.prems(1) by (simp add: k)
  qed
qed

lemma prefix_str_replace:
  assumes "old \<noteq> []" "prefix old new"
  shows "prefix old (str_replace old new s) \<longleftrightarrow> prefix old s"
proof -
  have "prefix old t \<longleftrightarrow> take (length old) t = old" for t :: string
    by (metis append_eq_conv_conj prefix_def take_is_prefix)
  then show ?thesis using take_str_replace[OF assms] by simp
qed

lemma seds_twice:
  "str_replace ''_seds'' ''_noisemodel'' (str_replace ''_seds'' ''_seds_trim'' s) =
   str_replace ''_seds'' ''_noisemodel_trim'' s"
proof (induction s rule: length_induct)
  case (1 s)
  show ?case
  proof (cases "prefix ''_seds'' s")
    case True
    then obtain r where r: "s = ''_seds'' @ r" by (auto simp: prefix_def)
    have "length r < length s" by (simp add: r)
    with 1 have IH: "str_replace ''_seds'' ''_noisemodel'' (str_replace ''_seds'' ''_seds_trim'' r) =
       str_replace ''_seds'' ''_noisemodel_trim'' r" by blast
    show ?thesis unfolding r using IH by simp
  next
    case False
    show ?thesis
    proof (cases s)
      case Nil
      then show ?thesis by simp
    next
      case (Cons c cs)
      have "\<not> prefix ''_seds'' (str_replace ''_seds'' ''_seds_trim'' s)"
        using False by (simp add: prefix_str_replace)
      moreover have "str_replace ''_seds'' ''_seds_trim'' s = c # str_replace ''_seds'' ''_seds_trim'' cs"
        using False unfolding Cons by (intro str_replace_no_prefix) auto
      ultimately have "str_replace ''_seds'' ''_noisemodel'' (str_replace ''_seds'' ''_seds_trim'' s)
         = c # str_replace ''_seds'' ''_noisemodel'' (str_replace ''_seds'' ''_seds_trim'' cs)"
        by (simp del: str_replace.simps add: str_replace_no_prefix)
      moreover have "str_replace ''_seds'' ''_noisemodel_trim'' s = c # str_replace ''_seds'' ''_noisemodel_trim'' cs"
        using False unfolding Cons by (intro str_replace_no_prefix) auto
      moreover have "length cs < length s" by (simp add: Cons)
      ultimately show ?thesis using 1 by simp
    qed
  qed
qed

text \<open>
  An occurrence of \<^verbatim>\<open>_seds\<close> cannot start inside \<open>p\<close> and end inside \<open>t\<close> when \<open>t\<close>
  starts with a character that is none of \<open>s\<close>, \<open>e\<close>, \<open>d\<close>.
\<close>

lemma seds_no_span:
  assumes "\<not> prefix ''_seds'' p" "p \<noteq> []" "t \<noteq> []"
    "hd t \<notin> {CHR ''s'', CHR ''e'', CHR ''d''}"
  shows "\<not> prefix ''_seds'' (p @ t)"
proof
  assume "prefix ''_seds'' (p @ t)"
  then obtain us where us: "''_seds'' = p @ us" "prefix us t"
    using assms(1) by (auto simp: prefix_append)
  from us(1) assms(1,2) have "us \<in> {''seds'', ''eds'', ''ds'', ''s''}"
    by (auto simp: Cons_eq_append_conv)
  then show False using us(2) assms(3,4)
    by (cases t) auto
qed

lemma str_replace_seds_skip:
  "\<not> sublist ''_seds'' p \<Longrightarrow> t \<noteq> [] \<Longrightarrow> hd t \<notin> {CHR ''s'', CHR ''e'', CHR ''d''} \<Longrightarrow>
   str_replace ''_seds'' new (p @ t) = p @ str_replace ''_seds'' new t"
proof (induction p)
  case Nil
  then show ?case by simp
next
  case (Cons x p)
  from Cons.prems(1) have np: "\<not> prefix ''_seds'' (x # p)" and ns: "\<not> sublist ''_seds'' p"
    by (auto simp: sublist_code)
  have "\<not> prefix ''_seds'' ((x # p) @ t)"
    by (rule seds_no_span[OF np _ Cons.prems(2,3)]) simp
  then have "\<not> prefix ''_seds'' (x # (p @ t))" by simp
  then have "str_replace ''_seds'' new (x # (p @ t)) = x # str_replace ''_seds'' new (p @ t)"
    by (rule str_replace_no_prefix[rotated]) simp
  with Cons.IH[OF ns Cons.prems(2,3)] show ?case by simp
qed

lemma sed_trimname_closed:
  "\<not> sublist ''_seds'' p \<Longrightarrow> sed_trimname p = p @ ''/'' @ p @ ''_seds_trim.grid.hd5''"
  unfolding sed_trimname_def modelsedgridfile_def
  by (simp add: str_replace_seds_skip)

lemma noisemodelfile_closed:
  "\<not> sublist ''_seds'' p \<Longrightarrow> noisemodelfile p = p @ ''/'' @ p @ ''_noisemodel_trim.grid.hd5''"
  unfolding noisemodelfile_def fit_modelsedgrid_def
  by (simp add: str_replace_seds_skip)

lemma noisemodel_trimname_closed:
  "\<not> sublist ''_seds'' p \<Longrightarrow>
   noisemodel_trimname p = p @ ''/'' @ p @ ''_noisemodel_trim.grid.hd5''"
  unfolding noisemodel_trimname_def
  by (simp add: sed_trimname_closed str_replace_seds_skip)

text \<open>
  For a project name without \<^verbatim>\<open>_seds\<close> the fit stage looks for its two inputs under
  the names the trim stage wrote them to.
\<close>

lemma fit_reads_what_trim_writes:
  "\<not> sublist ''_seds'' p \<Longrightarrow>
   noisemodelfile p = noisemodel_trimname p \<and> fit_modelsedgrid p = sed_trimname p"
  by (simp add: noisemodelfile_closed noisemodel_trimname_closed sed_trimname_closed
      fit_modelsedgrid_def)

text \<open>
  Claim C2, as amended. The trim stage derives the name of the trimmed noise model
  from the name of the trimmed SED grid, so for every project name it is the SED grid
  file name with \<^verbatim>\<open>_seds\<close> replaced by \<^verbatim>\<open>_noisemodel_trim\<close>
  (and not by \<^verbatim>\<open>_noisemodel\<close>).
\<close>

theorem trim_noisemodel_name:
  "noisemodel_trimname p = str_replace ''_seds'' ''_noisemodel_trim'' (modelsedgridfile p)"
  by (simp add: noisemodel_trimname_def sed_trimname_def seds_twice)

theorem trim_noisemodel_name_witness:
  "noisemodel_trimname ''b15'' = ''b15/b15_noisemodel_trim.grid.hd5''"
  using trim_noisemodel_name [of "''b15''"]
  by (simp add: modelsedgridfile_def)

theorem trim_noisemodel_name_counterexample:
  "noisemodel_trimname ''b15'' \<noteq> str_replace ''_seds'' ''_noisemodel'' (modelsedgridfile ''b15'')"
  by (simp add: noisemodel_trimname_def sed_trimname_def modelsedgridfile_def)

text \<open>
  Claim C3. For the project name \<^verbatim>\<open>m31_seds\<close> the fit stage looks for the noise
  model under a name other than the one the trim stage wrote: the replacement of the trim
  stage also rewrites the project part of the path.
\<close>

theorem fit_trim_names_differ:
  "noisemodelfile ''m31_seds'' = ''m31_noisemodel/m31_noisemodel_noisemodel_trim.grid.hd5'' \<and>
   noisemodel_trimname ''m31_seds'' =
     ''m31_noisemodel_trim/m31_noisemodel_trim_noisemodel_trim.grid.hd5'' \<and>
   noisemodelfile ''m31_seds'' \<noteq> noisemodel_trimname ''m31_seds''"
  by (simp add: noisemodelfile_def noisemodel_trimname_def sed_trimname_def
      modelsedgridfile_def fit_modelsedgrid_def)

section \<open>The physicsmodel stage: distances\<close>

lemma iso_calls_no_grid: "list_all (\<lambda>c. \<not> builds_grid c) (iso_calls dm)"
  by (simp add: iso_calls_def)

lemma ex_distances: "distances ex_datamodel = [\<lparr>q_value = 5, q_unit = Mag\<rparr>]"
  by (simp add: ex_datamodel_def)

lemma ex_distances_pc: "distances ex_datamodel_pc = [\<lparr>q_value = 780000, q_unit = Pc\<rparr>]"
  by (simp add: ex_datamodel_pc_def)

lemma ex_distances_kpc: "distances ex_datamodel_kpc = [\<lparr>q_value = 780, q_unit = Kpc\<rparr>]"
  by (simp add: ex_datamodel_kpc_def)

lemma ex_distances_sec: "distances ex_datamodel_sec = [\<lparr>q_value = 1, q_unit = Second\<rparr>]"
  by (simp add: ex_datamodel_sec_def)

text \<open>
  Claim C1, as amended. The unit is read off the first distance. If it is the magnitude,
  every entry \<open>d\<close> is handed to the grid builders as \<open>10 powr (d / 5 + 1)\<close> parsec; if it is
  the parsec, the list is handed on unchanged; with any other unit, other length units
  included, the stage raises the ValueError after the project directory and the isochrone
  table were made and before any call that builds a grid.
\<close>

theorem physicsmodel_distances:
  "(distances dm \<noteq> [] \<and> q_unit (hd (distances dm)) = Mag \<longrightarrow>
      physicsmodel_stage dm =
        (iso_calls dm @
         grid_calls dm
           (map (\<lambda>d. \<lparr>q_value = 10 powr (q_value d / 5 + 1), q_unit = Pc\<rparr>) (distances dm)),
         None)) \<and>
   (distances dm \<noteq> [] \<and> q_unit (hd (distances dm)) = Pc \<longrightarrow>
      physicsmodel_stage dm = (iso_calls dm @ grid_calls dm (distances dm), None)) \<and>
   (distances dm \<noteq> [] \<and> q_unit (hd (distances dm)) \<noteq> Mag \<and>
    q_unit (hd (distances dm)) \<noteq> Pc \<longrightarrow>
      physicsmodel_stage dm =
        (iso_calls dm,
         Some (ValueError ''distance modulus does not have mag or parsec units'')) \<and>
      list_all (\<lambda>c. \<not> builds_grid c) (fst (physicsmodel_stage dm)))"
  by (cases "distances dm")
     (simp_all add: physicsmodel_stage_def convert_distances_def iso_calls_no_grid)

theorem physicsmodel_distances_witness:
  "physicsmodel_stage ex_datamodel =
     (iso_calls ex_datamodel @ grid_calls ex_datamodel [\<lparr>q_value = 100, q_unit = Pc\<rparr>],
      None) \<and>
   physicsmodel_stage ex_datamodel_pc =
     (iso_calls ex_datamodel_pc @
      grid_calls ex_datamodel_pc [\<lparr>q_value = 780000, q_unit = Pc\<rparr>], None) \<and>
   physicsmodel_stage ex_datamodel_sec =
     (iso_calls ex_datamodel_sec,
      Some (ValueError ''distance modulus does not have mag or parsec units''))"
proof -
  have p: "(10::real) powr (5 / 5 + 1) = 100" by simp
  have "distances ex_datamodel \<noteq> [] \<and> q_unit (hd (distances ex_datamodel)) = Mag"
    by (simp add: ex_distances)
  with physicsmodel_distances [of ex_datamodel]
  have "physicsmodel_stage ex_datamodel =
     (iso_calls ex_datamodel @
      grid_calls ex_datamodel
        (map (\<lambda>d. \<lparr>q_value = 10 powr (q_value d / 5 + 1), q_unit = Pc\<rparr>)
           (distances ex_datamodel)), None)"
    by blast
  then have a: "physicsmodel_stage ex_datamodel =
     (iso_calls ex_datamodel @ grid_calls ex_datamodel [\<lparr>q_value = 100, q_unit = Pc\<rparr>],
      None)"
    by (simp add: ex_distances p)
  have "distances ex_datamodel_pc \<noteq> [] \<and> q_unit (hd (distances ex_datamodel_pc)) = Pc"
    by (simp add: ex_distances_pc)
  with physicsmodel_distances [of ex_datamodel_pc]
  have "physicsmodel_stage ex_datamodel_pc =
     (iso_calls ex_datamodel_pc @ grid_calls ex_datamodel_pc (distances ex_datamodel_pc),
      None)"
    by blast
  then have b: "physicsmodel_stage ex_datamodel_pc =
     (iso_calls ex_datamodel_pc @
      grid_calls ex_datamodel_pc [\<lparr>q_value = 780000, q_unit = Pc\<rparr>], None)"
    by (simp only: ex_distances_pc)
  have "distances ex_datamodel_sec \<noteq> [] \<and>
     q_unit (hd (distances ex_datamodel_sec)) \<noteq> Mag \<and>
     q_unit (hd (distances ex_datamodel_sec)) \<noteq> Pc"
    by (simp add: ex_distances_sec)
  with physicsmodel_distances [of ex_datamodel_sec]
  have c: "physicsmodel_stage ex_datamodel_sec =
     (iso_calls ex_datamodel_sec,
      Some (ValueError ''distance modulus does not have mag or parsec units''))"
    by blast
  from a b c show ?thesis by blast
qed

theorem physicsmodel_length_unit_counterexample:
  "is_length (q_unit (hd (distances ex_datamodel_kpc))) \<and>
   physicsmodel_stage ex_datamodel_kpc =
     (iso_calls ex_datamodel_kpc,
      Some (ValueError ''distance modulus does not have mag or parsec units''))"
  by (simp add: physicsmodel_stage_def convert_distances_def ex_distances_kpc)

section \<open>The catalog wrapper\<close>

text \<open>
  Claim C4. With the units option set, \<^verbatim>\<open>getFlux\<close> never returns: inside the method
  the name \<^verbatim>\<open>units\<close> is the boolean parameter, not the astropy module, and the
  attribute lookup on it raises.
\<close>

theorem getFlux_units_raises: "getFlux self num True \<noteq> Inr fl"
  by (simp add: getFlux_def split: sum.splits)

lemma row_values_ok:
  "\<forall>f \<in> set fs. resolve_alias t f \<in> set (colnames t) \<Longrightarrow>
   row_values t i fs = Inr (map (\<lambda>f. cell t (resolve_alias t f) i) fs)"
  by (induction fs) (simp_all add: row_getitem_def)

lemma set_aliases_colnames:
  "set_aliases cols t xs = Inr t' \<Longrightarrow>
   colnames t' = colnames t \<and> nrows t' = nrows t \<and> cell t' = cell t"
  by (induction cols t xs rule: set_aliases.induct)
     (auto simp: set_alias_def split: if_splits)

lemma set_aliases_ok:
  "n + length fs \<le> length cols \<Longrightarrow> \<exists>t'. set_aliases cols t (enumerate n fs) = Inr t'"
  by (induction fs arbitrary: n t) simp_all

lemma GenFluxCatalog_init_fields:
  assumes "GenFluxCatalog_init w cols inputFile fs = Inr self"
  shows "GenFluxCatalog.filters self = fs" "vega_flux self = Vega_getFlux w fs"
    "colnames (data self) = colnames (read_catalog w inputFile)"
    "nrows (data self) = nrows (read_catalog w inputFile)"
    "cell (data self) = cell (read_catalog w inputFile)"
  using assms
  by (auto simp: GenFluxCatalog_init_def Observations_init_def setFilters_def setBadValue_def
      Let_def split: sum.splits dest: set_aliases_colnames)

lemma GenFluxCatalog_init_ok:
  assumes "length fs \<le> length cols"
  shows "\<exists>self. GenFluxCatalog_init w cols inputFile fs = Inr self"
proof -
  let ?s = "setBadValue (setFilters w
      (Observations_init w inputFile (''GENERIC star: '' @ inputFile)) fs) (6 / 10 ^ 40)"
  obtain t' where "set_aliases cols (data ?s) (enumerate 0 fs) = Inr t'"
    using set_aliases_ok [of 0 fs cols "data ?s"] assms by auto
  then show ?thesis by (simp add: GenFluxCatalog_init_def Let_def)
qed

lemma set_aliases_other:
  "set_aliases cols t (enumerate n fs) = Inr t' \<Longrightarrow> name \<notin> set fs \<Longrightarrow>
   map_of (aliases t') name = map_of (aliases t) name"
proof (induction fs arbitrary: n t)
  case Nil
  then show ?case by simp
next
  case (Cons f fs)
  from Cons.prems(1) have n: "n < length cols"
    and r: "set_aliases cols (set_alias t f (cols ! n)) (enumerate (Suc n) fs) = Inr t'"
    by (simp_all split: if_splits)
  from Cons.prems(2) have "name \<noteq> f" "name \<notin> set fs" by auto
  with Cons.IH [OF r] show ?case by (simp add: set_alias_def)
qed

lemma set_aliases_last:
  "set_aliases cols t (enumerate n fs) = Inr t' \<Longrightarrow> k < length fs \<Longrightarrow>
   (\<forall>j. k < j \<and> j < length fs \<longrightarrow> fs ! j \<noteq> fs ! k) \<Longrightarrow>
   map_of (aliases t') (fs ! k) = Some (cols ! (n + k))"
proof (induction fs arbitrary: n t k)
  case Nil
  then show ?case by simp
next
  case (Cons f fs)
  from Cons.prems(1) have n: "n < length cols"
    and r: "set_aliases cols (set_alias t f (cols ! n)) (enumerate (Suc n) fs) = Inr t'"
    by (simp_all split: if_splits)
  show ?case
  proof (cases k)
    case 0
    have "f \<notin> set fs"
    proof
      assume "f \<in> set fs"
      then obtain j where j: "j < length fs" "fs ! j = f" by (auto simp: in_set_conv_nth)
      with Cons.prems(3) [rule_format, of "Suc j"] 0 show False by simp
    qed
    from set_aliases_other [OF r this] show ?thesis
      by (simp add: 0 set_alias_def)
  next
    case (Suc k')
    have k': "k' < length fs" using Cons.prems(2) Suc by simp
    have l: "\<forall>j. k' < j \<and> j < length fs \<longrightarrow> fs ! j \<noteq> fs ! k'"
    proof (intro allI impI)
      fix j assume "k' < j \<and> j < length fs"
      with Cons.prems(3) [rule_format, of "Suc j"] Suc show "fs ! j \<noteq> fs ! k'" by simp
    qed
    from Cons.IH [OF r k' l] show ?thesis by (simp add: Suc)
  qed
qed

lemma GenFluxCatalog_init_aliases:
  assumes "GenFluxCatalog_init w cols inputFile fs = Inr self"
  shows "set_aliases cols (read_catalog w inputFile) (enumerate 0 fs) = Inr (data self)"
  using assms
  by (auto simp: GenFluxCatalog_init_def Observations_init_def setFilters_def setBadValue_def
      Let_def split: sum.splits)

lemma GenFluxCatalog_init_resolve:
  assumes "GenFluxCatalog_init w cols inputFile fs = Inr self" "k < length fs"
    "\<forall>j. k < j \<and> j < length fs \<longrightarrow> fs ! j \<noteq> fs ! k"
  shows "resolve_alias (data self) (fs ! k) = cols ! k"
  using set_aliases_last [OF GenFluxCatalog_init_aliases [OF assms(1)] assms(2,3)]
  by (simp add: resolve_alias_def)

lemma distinct_no_later:
  "distinct fs \<Longrightarrow> k < length fs \<Longrightarrow> \<forall>j. k < j \<and> j < length fs \<longrightarrow> fs ! j \<noteq> fs ! k"
  by (auto simp: nth_eq_iff_index_eq)

text \<open>
  Claim C6. For a catalog as its constructor leaves it, a row index \<open>num\<close> of the table
  (its \<open>i\<close>-th row) and filters whose aliased columns the table has, \<^verbatim>\<open>getFlux\<close>
  without units returns one entry per configured filter. The \<open>k\<close>-th entry is the row's
  value in the column that the \<open>k\<close>-th filter's alias resolves to, times the \<open>k\<close>-th Vega
  flux that the constructor looked up; and that column is the rate column
  \<^verbatim>\<open>obs_colnames[j]\<close> that the constructor aliased the filter to, \<open>j\<close> being the last
  position of the filter's name in the list, hence \<open>k\<close> itself when the filter names are
  distinct. The Vega lookup is assumed to return one flux per filter.
\<close>

theorem getFlux_scaled:
  assumes init: "GenFluxCatalog_init w cols inputFile fs = Inr self"
    and vega: "length (Vega_getFlux w fs) = length fs"
    and row: "table_getrow (data self) num = Inr i"
    and cols: "\<forall>f \<in> set fs. resolve_alias (data self) f \<in> set (colnames (data self))"
  shows "\<exists>fl. getFlux self num False = Inr (Flux fl) \<and> length fl = length fs \<and>
     (\<forall>k < length fs.
        fl ! k = cell (data self) (resolve_alias (data self) (fs ! k)) i * Vega_getFlux w fs ! k) \<and>
     (\<forall>k < length fs. \<forall>j < length fs.
        fs ! j = fs ! k \<and> (\<forall>j'. j < j' \<and> j' < length fs \<longrightarrow> fs ! j' \<noteq> fs ! j) \<longrightarrow>
        resolve_alias (data self) (fs ! k) = cols ! j \<and>
        fl ! k = cell (data self) (cols ! j) i * Vega_getFlux w fs ! k) \<and>
     (distinct fs \<longrightarrow>
        (\<forall>k < length fs. fl ! k = cell (data self) (cols ! k) i * Vega_getFlux w fs ! k))"
proof -
  let ?vals = "map (\<lambda>f. cell (data self) (resolve_alias (data self) f) i) fs"
  let ?fl = "map2 (*) ?vals (Vega_getFlux w fs)"
  have f: "GenFluxCatalog.filters self = fs" and v: "vega_flux self = Vega_getFlux w fs"
    using GenFluxCatalog_init_fields [OF init] by simp_all
  have rv: "row_values (data self) i (GenFluxCatalog.filters self) = Inr ?vals"
    unfolding f by (rule row_values_ok [OF cols])
  have bc: "np_broadcast (*) ?vals (vega_flux self) = Inr ?fl"
    by (simp add: np_broadcast_def v vega)
  have g: "getFlux self num False = Inr (Flux ?fl)"
    by (simp add: getFlux_def row rv bc)
  have l: "length ?fl = length fs" by (simp add: vega)
  have e: "?fl ! k = cell (data self) (resolve_alias (data self) (fs ! k)) i *
      Vega_getFlux w fs ! k" if "k < length fs" for k
    using that by (simp add: vega)
  have a: "resolve_alias (data self) (fs ! k) = cols ! j"
    if "k < length fs" "j < length fs" "fs ! j = fs ! k"
      "\<forall>j'. j < j' \<and> j' < length fs \<longrightarrow> fs ! j' \<noteq> fs ! j" for k j
    using GenFluxCatalog_init_resolve [OF init that(2,4)] that(3) by simp
  have d: "?fl ! k = cell (data self) (cols ! k) i * Vega_getFlux w fs ! k"
    if "distinct fs" "k < length fs" for k
    using e [OF that(2)] a [OF that(2) that(2) refl distinct_no_later [OF that]] by simp
  have "\<forall>k < length fs. ?fl ! k =
      cell (data self) (resolve_alias (data self) (fs ! k)) i * Vega_getFlux w fs ! k"
    using e by blast
  moreover have "\<forall>k < length fs. \<forall>j < length fs.
      fs ! j = fs ! k \<and> (\<forall>j'. j < j' \<and> j' < length fs \<longrightarrow> fs ! j' \<noteq> fs ! j) \<longrightarrow>
      resolve_alias (data self) (fs ! k) = cols ! j \<and>
      ?fl ! k = cell (data self) (cols ! j) i * Vega_getFlux w fs ! k"
  proof (intro allI impI)
    fix k j
    assume k: "k < length fs" and j: "j < length fs"
      and h: "fs ! j = fs ! k \<and> (\<forall>j'. j < j' \<and> j' < length fs \<longrightarrow> fs ! j' \<noteq> fs ! j)"
    from a [OF k j] h have r: "resolve_alias (data self) (fs ! k) = cols ! j" by blast
    with e [OF k] show "resolve_alias (data self) (fs ! k) = cols ! j \<and>
      ?fl ! k = cell (data self) (cols ! j) i * Vega_getFlux w fs ! k"
      by simp
  qed
  moreover have "distinct fs \<longrightarrow>
      (\<forall>k < length fs. ?fl ! k = cell (data self) (cols ! k) i * Vega_getFlux w fs ! k)"
    using d by blast
  ultimately show ?thesis using g l by blast
qed

lemma ex_catalog_init:
  "GenFluxCatalog_init ex_world ex_obs_colnames ''data/b15.gst.fits'' ex_filters = Inr ex_catalog"
  by (simp add: GenFluxCatalog_init_def Observations_init_def setFilters_def setBadValue_def
      ex_world_def ex_obs_colnames_def ex_filters_def ex_catalog_def set_alias_def
      ex_table_def enumerate_eq_zip)

lemma ex_catalog_data:
  "colnames (data ex_catalog) = [''F475W_RATE'', ''F814W_RATE'', ''F475W_VEGA'', ''F814W_VEGA'']"
  "nrows (data ex_catalog) = 3"
  "resolve_alias (data ex_catalog) ''HST_ACS_WFC_F475W'' = ''F475W_RATE''"
  "resolve_alias (data ex_catalog) ''HST_ACS_WFC_F814W'' = ''F814W_RATE''"
  "cell (data ex_catalog) ''F475W_RATE'' (Suc 0) = 4"
  "cell (data ex_catalog) ''F814W_RATE'' (Suc 0) = 3"
  by (simp_all add: ex_catalog_def ex_table_def resolve_alias_def)

theorem getFlux_scaled_witness:
  "\<exists>fl. getFlux ex_catalog 1 False = Inr (Flux fl) \<and> length fl = 2 \<and>
     fl ! 0 = 40 \<and> fl ! 1 = 21"
proof -
  have v: "Vega_getFlux ex_world ex_filters = [10, 7]"
    by (simp add: ex_world_def ex_filters_def)
  have l: "length (Vega_getFlux ex_world ex_filters) = length ex_filters"
    by (simp add: v) (simp add: ex_filters_def)
  have r: "table_getrow (data ex_catalog) 1 = Inr 1"
    by (simp add: table_getrow_def py_index_def ex_catalog_data)
  have c: "\<forall>f \<in> set ex_filters.
      resolve_alias (data ex_catalog) f \<in> set (colnames (data ex_catalog))"
    by (simp add: ex_filters_def ex_catalog_data)
  have d: "distinct ex_filters" by (simp add: ex_filters_def)
  from getFlux_scaled [OF ex_catalog_init l r c] d
  obtain fl where fl: "getFlux ex_catalog 1 False = Inr (Flux fl)" "length fl = length ex_filters"
    and k: "\<forall>k < length ex_filters. fl ! k =
      cell (data ex_catalog) (ex_obs_colnames ! k) 1 * Vega_getFlux ex_world ex_filters ! k"
    by blast
  have n: "length ex_filters = 2" "ex_filters ! 0 = ''HST_ACS_WFC_F475W''"
    "ex_filters ! Suc 0 = ''HST_ACS_WFC_F814W''"
    by (simp_all add: ex_filters_def)
  from k n(1) have "fl ! 0 = cell (data ex_catalog) (ex_obs_colnames ! 0) 1 *
      Vega_getFlux ex_world ex_filters ! 0"
    by simp
  then have f0: "fl ! 0 = 40" by (simp add: n ex_catalog_data v ex_obs_colnames_def)
  from k n(1) have "fl ! 1 = cell (data ex_catalog) (ex_obs_colnames ! 1) 1 *
      Vega_getFlux ex_world ex_filters ! 1"
    by simp
  then have f1: "fl ! 1 = 21" by (simp add: n ex_catalog_data v ex_obs_colnames_def)
  from fl f0 f1 n(1) show ?thesis by auto
qed

section \<open>The ast stage: magnitude cuts\<close>

lemma map_nth_list: "map (\<lambda>j. f (xs ! j)) [0..<length xs] = map f xs"
proof -
  have "map f (map ((!) xs) [0..<length xs]) = map f xs" by (simp only: map_nth)
  then show ?thesis by (simp only: map_map o_def)
qed

lemma np_where_lt_column:
  "np_where_lt (column_values t name) c = filter (\<lambda>i. cell t name i < c) [0..<nrows t]"
  unfolding np_where_lt_def column_values_def
  by (rule filter_cong) simp_all

lemma column_values_getrows:
  "column_values (table_getrows t keep) name = map (cell t name) keep"
proof -
  have "column_values (table_getrows t keep) name =
      map (\<lambda>j. cell t name (keep ! j)) [0..<length keep]"
    by (simp add: column_values_def table_getrows_def)
  then show ?thesis by (simp only: map_nth_list)
qed

lemma kept_column:
  "column_values (table_getrows t (np_where_lt (column_values t name) c)) name =
   filter (\<lambda>m. m < c) (column_values t name)"
proof -
  have "map (cell t name) (filter (\<lambda>i. cell t name i < c) [0..<nrows t]) =
      filter (\<lambda>m. m < c) (map (cell t name) [0..<nrows t])"
    by (simp only: filter_map o_def)
  then show ?thesis
    by (simp only: column_values_getrows np_where_lt_column) (simp only: column_values_def)
qed

lemma min_mags_loop_ok:
  assumes "\<forall>f \<in> set fs. vega_colname ob f \<in> set (colnames (data ob))"
    and "n + length fs \<le> length mm"
  shows "min_mags_loop w ob (enumerate n fs) mm =
     Inr (take n mm @
          map (\<lambda>f. percentile w
                 (filter (\<lambda>m. m < 99) (column_values (data ob) (vega_colname ob f))) 90) fs @
          drop (n + length fs) mm)"
  using assms
proof (induction fs arbitrary: n mm)
  case Nil
  then show ?case by simp
next
  case (Cons f fs)
  let ?p = "percentile w
      (filter (\<lambda>m. m < 99) (column_values (data ob) (vega_colname ob f))) 90"
  have n: "n < length mm" using Cons.prems(2) by simp
  have c: "vega_colname ob f \<in> set (colnames (data ob))" using Cons.prems(1) by simp
  have c': "vega_colname ob f \<in> set (colnames (table_getrows (data ob) keep))" for keep
    using c by (simp add: table_getrows_def)
  have step: "min_mags_loop w ob (enumerate n (f # fs)) mm =
      min_mags_loop w ob (enumerate (Suc n) fs) (mm[n := ?p])"
    using n by (simp add: table_getcolumn_def c c' kept_column Let_def)
  have "min_mags_loop w ob (enumerate (Suc n) fs) (mm[n := ?p]) =
     Inr (take (Suc n) (mm[n := ?p]) @
          map (\<lambda>f. percentile w
                 (filter (\<lambda>m. m < 99) (column_values (data ob) (vega_colname ob f))) 90) fs @
          drop (Suc n + length fs) (mm[n := ?p]))"
    using Cons.prems by (intro Cons.IH) auto
  moreover have "take (Suc n) (mm[n := ?p]) = take n mm @ [?p]"
    using n by (simp add: take_Suc_conv_app_nth)
  moreover have "drop (Suc n + length fs) (mm[n := ?p]) = drop (Suc n + length fs) mm"
    by simp
  ultimately show ?case unfolding step by simp
qed

lemma np_broadcast_scalar:
  "length b = 1 \<Longrightarrow> np_broadcast f a b = Inr (map (\<lambda>x. f x (hd b)) a)"
  by (cases b; cases a) (auto simp: np_broadcast_def)

text \<open>
  Claim C5. When the configured magnitude-cut list has exactly one element, the catalog
  can be opened and it has the Vega-magnitude column of every filter, the ast stage hands
  \<^verbatim>\<open>pick_models\<close> one cut per filter: the 90th percentile of the values below 99 in
  that filter's Vega-magnitude column, plus the single configured value. The percentile
  function is the library's and is left open.
\<close>

theorem ast_mag_cuts_percentile:
  assumes one: "length (ast_maglimit dm) = 1"
    and cat: "get_obscat w dm (obsfile dm) (datamodel.filters dm) = Inr obsdata"
    and cols: "\<forall>f \<in> set (datamodel.filters dm).
        vega_colname obsdata f \<in> set (colnames (data obsdata))"
  shows "\<exists>cuts. snd (ast_mag_cuts w dm) = Inr cuts \<and>
     length cuts = length (datamodel.filters dm) \<and>
     (\<forall>k < length (datamodel.filters dm).
        cuts ! k =
          percentile w
            (filter (\<lambda>m. m < 99)
               (column_values (data obsdata) (vega_colname obsdata (datamodel.filters dm ! k))))
            90
          + hd (ast_maglimit dm)) \<and>
     PickModels (modelsedgridfile (project dm)) cuts (ast_bands_above_maglimit dm)
       (ast_models_selected_per_age dm) (ast_realization_per_model dm)
       \<in> set (fst (ast_stage w dm))"
proof -
  let ?fs = "datamodel.filters dm"
  let ?mins = "map (\<lambda>f. percentile w
      (filter (\<lambda>m. m < 99) (column_values (data obsdata) (vega_colname obsdata f))) 90) ?fs"
  let ?cuts = "map (\<lambda>x. x + hd (ast_maglimit dm)) ?mins"
  have f: "GenFluxCatalog.filters obsdata = ?fs"
    using cat GenFluxCatalog_init_fields(1) by (simp add: get_obscat_def)
  have "min_mags_loop w obsdata (enumerate 0 ?fs) (replicate (length ?fs) 0) =
     Inr (take 0 (replicate (length ?fs) 0) @ ?mins @
          drop (0 + length ?fs) (replicate (length ?fs) 0))"
    by (rule min_mags_loop_ok [OF cols]) simp
  then have loop: "min_mags_loop w obsdata (enumerate 0 (GenFluxCatalog.filters obsdata))
      (replicate (length ?fs) 0) = Inr ?mins"
    by (simp add: f)
  have mc: "ast_mag_cuts w dm =
      ([ObservationsInit (obsfile dm), VegaGetFlux ?fs], Inr ?cuts)"
    by (simp add: ast_mag_cuts_def one cat loop np_broadcast_scalar Let_def)
  have "snd (ast_mag_cuts w dm) = Inr ?cuts" by (simp add: mc)
  moreover have "length ?cuts = length ?fs" by simp
  moreover have "\<forall>k < length ?fs. ?cuts ! k =
      percentile w (filter (\<lambda>m. m < 99)
        (column_values (data obsdata) (vega_colname obsdata (?fs ! k)))) 90
      + hd (ast_maglimit dm)"
    by simp
  moreover have "PickModels (modelsedgridfile (project dm)) ?cuts (ast_bands_above_maglimit dm)
       (ast_models_selected_per_age dm) (ast_realization_per_model dm)
       \<in> set (fst (ast_stage w dm))"
    by (simp add: ast_stage_def mc Let_def)
  ultimately show ?thesis by blast
qed

lemma ex_datamodel_obs:
  "obsfile ex_datamodel = ''data/b15.gst.fits''"
  "datamodel.filters ex_datamodel = ex_filters"
  "ast_maglimit ex_datamodel = [1]"
  "obs_colnames ex_datamodel = ex_obs_colnames"
  by (simp_all add: ex_datamodel_def obs_colnames_def ex_obs_colnames_def str_upper_def
      char_upper_def)

lemma ex_get_obscat:
  "get_obscat ex_world ex_datamodel (obsfile ex_datamodel) (datamodel.filters ex_datamodel) =
   Inr ex_catalog"
  by (simp only: get_obscat_def ex_datamodel_obs ex_catalog_init)

lemma ex_vega_colname:
  "vega_colname ex_catalog ''HST_ACS_WFC_F475W'' = ''F475W_VEGA''"
  "vega_colname ex_catalog ''HST_ACS_WFC_F814W'' = ''F814W_VEGA''"
  by (simp_all add: vega_colname_def ex_catalog_data)

lemma ex_vega_columns:
  "column_values (data ex_catalog) ''F475W_VEGA'' = [20, 99, 22]"
  "column_values (data ex_catalog) ''F814W_VEGA'' = [19, 21, 99999 / 1000]"
  by (simp_all add: column_values_def ex_catalog_def ex_table_def upt_rec)

lemma ex_filters_nth:
  "length ex_filters = 2" "ex_filters ! 0 = ''HST_ACS_WFC_F475W''"
  "ex_filters ! Suc 0 = ''HST_ACS_WFC_F814W''"
  by (simp_all add: ex_filters_def)

theorem ast_mag_cuts_percentile_witness:
  "\<exists>cuts. snd (ast_mag_cuts ex_world ex_datamodel) = Inr cuts \<and> length cuts = 2 \<and>
     cuts ! 0 = 23 \<and> cuts ! 1 = 22"
proof -
  have one: "length (ast_maglimit ex_datamodel) = 1" by (simp add: ex_datamodel_obs)
  have cols: "\<forall>f \<in> set (datamodel.filters ex_datamodel).
      vega_colname ex_catalog f \<in> set (colnames (data ex_catalog))"
    unfolding ex_datamodel_obs
    by (simp add: ex_filters_def ex_vega_colname ex_catalog_data)
  have p: "percentile ex_world xs q = (if xs = [] then 0 else Max (set xs))" for xs q
    by (simp add: ex_world_def)
  from ast_mag_cuts_percentile [OF one ex_get_obscat cols]
  obtain cuts where c: "snd (ast_mag_cuts ex_world ex_datamodel) = Inr cuts"
    "length cuts = length (datamodel.filters ex_datamodel)"
    and k: "\<forall>k < length (datamodel.filters ex_datamodel). cuts ! k =
      percentile ex_world (filter (\<lambda>m. m < 99)
        (column_values (data ex_catalog)
           (vega_colname ex_catalog (datamodel.filters ex_datamodel ! k)))) 90
      + hd (ast_maglimit ex_datamodel)"
    by blast
  from k have "cuts ! 0 =
      percentile ex_world (filter (\<lambda>m. m < 99)
        (column_values (data ex_catalog) (vega_colname ex_catalog (ex_filters ! 0)))) 90
      + hd (ast_maglimit ex_datamodel)"
    by (simp add: ex_datamodel_obs ex_filters_nth)
  then have c0: "cuts ! 0 = 23"
    by (simp add: ex_filters_nth ex_vega_colname ex_vega_columns p ex_datamodel_obs)
  from k have "cuts ! Suc 0 =
      percentile ex_world (filter (\<lambda>m. m < 99)
        (column_values (data ex_catalog) (vega_colname ex_catalog (ex_filters ! Suc 0)))) 90
      + hd (ast_maglimit ex_datamodel)"
    by (simp add: ex_datamodel_obs ex_filters_nth)
  then have c1: "cuts ! 1 = 22"
    by (simp add: ex_filters_nth ex_vega_colname ex_vega_columns p ex_datamodel_obs)
  from c c0 c1 show ?thesis by (auto simp: ex_datamodel_obs ex_filters_nth)
qed

section \<open>The driver: which stages run\<close>


lemma then_run_fst:
  "fst (then_run r1 r2) = fst r1 @ (if snd r1 = None then fst r2 else [])"
  by (simp add: then_run_def split: option.splits)


lemma stages_executed_append:
  "stages_executed (xs @ ys) = stages_executed xs @ stages_executed ys"
  by (simp add: stages_executed_def map_filter_def)

lemma stages_executed_then_run:
  "snd r1 = None \<Longrightarrow>
   stages_executed (fst (then_run r1 r2)) = stages_executed (fst r1) @ stages_executed (fst r2)"
  by (simp add: then_run_fst stages_executed_append)














lemma ex_verify: "verify_ok ex_world" "\<not> verify_ok ex_world_bad"
  by (simp_all add: ex_world_def ex_world_bad_def)







text \<open>
  Claim C7, as amended. When the input verification passes, an invocation without any flag
  makes two calls, the verification and \<^verbatim>\<open>print_help\<close>: no stage runs, no call writes a
  file, and the program ends normally.
\<close>

theorem no_flags_prints_help:
  "verify_ok w \<Longrightarrow>
   main w dm [] = ([VerifyInputFormat, PrintHelp], None) \<and>
   stages_executed (fst (main w dm [])) = [] \<and>
   list_all (\<lambda>c. \<not> writes_files c) (fst (main w dm []))"
  by (simp add: main_def run_beast_def parse_args_def run_if_def then_run_def
      verify_input_format_def stages_executed_def map_filter_def)

theorem no_flags_prints_help_witness:
  "main ex_world ex_datamodel [] = ([VerifyInputFormat, PrintHelp], None)"
  using no_flags_prints_help [of ex_world ex_datamodel] ex_verify(1) by simp

theorem no_flags_bad_config_counterexample:
  "main ex_world_bad ex_datamodel [] = ([VerifyInputFormat], Some InputFormatError)"
  by (simp add: main_def run_beast_def then_run_def verify_input_format_def ex_verify)

text \<open>
  Claim C10, as amended. With the resume flag alone the only call is the input
  verification: no stage runs and the help is not printed, because resume counts as a set
  argument. The program ends normally when the verification passes and with the
  verification's error otherwise.
\<close>

theorem only_resume_is_silent:
  "set argv = {FlagR} \<Longrightarrow>
   fst (main w dm argv) = [VerifyInputFormat] \<and>
   snd (main w dm argv) = (if verify_ok w then None else Some InputFormatError)"
  by (simp add: main_def run_beast_def parse_args_def run_if_def then_run_def
      verify_input_format_def)

theorem only_resume_is_silent_witness:
  "main ex_world ex_datamodel [FlagR] = ([VerifyInputFormat], None)"
proof -
  have "set [FlagR] = {FlagR}" by simp
  from only_resume_is_silent [OF this, of ex_world ex_datamodel] ex_verify(1)
  show ?thesis by (simp add: prod_eq_iff)
qed

theorem only_resume_bad_config_counterexample:
  "snd (main ex_world_bad ex_datamodel [FlagR]) = Some InputFormatError"
  by (simp add: main_def run_beast_def then_run_def verify_input_format_def ex_verify)

section \<open>The driver: the resume flag\<close>





























end
